theory Spec2Isabelle
  imports Complex_Main
begin

section \<open>The retry-with-fallback pipeline of vscode_llm_example_full.py\<close>

text \<open>
  The embedding follows \<^verbatim>\<open>release/copilot-proxy-v0.0.2/examples/vscode_llm_example_full.py\<close>:
  \<^verbatim>\<open>call_vscode_llm\<close> (the retry loop against the primary backend),
  \<^verbatim>\<open>call_anthropic_fallback\<close> (one call to the secondary backend) and
  \<^verbatim>\<open>call_llm_with_fallback\<close> (the pipeline).

  Python exceptions are values of the type \<open>exn\<close>; a call returns \<open>exn + json\<close>
  (\<open>Inl\<close> is a raised exception) together with the list of effects it performed, in
  order: each \<^verbatim>\<open>session.post\<close>, each \<^verbatim>\<open>asyncio.sleep\<close> and each
  \<^verbatim>\<open>client.messages.create\<close>. The output of the \<^verbatim>\<open>print\<close> calls is not modelled;
  the evaluation of their arguments is, where it can raise (lines 117 and 118).
  What the two backends answer is an input of the model: the primary's answer to the
  request of each attempt, and the secondary's answer to its single request.
\<close>

subsection \<open>Values and exceptions\<close>

text \<open>
  A decoded JSON body, as \<^verbatim>\<open>response.json()\<close> returns it. An object is the list of
  its items; \<open>map_of\<close> looks a key up. Numbers are their mathematical value.
\<close>

datatype json =
    JNull
  | JBool bool
  | JNum real
  | JStr string
  | JArr "json list"
  | JObj "(string \<times> json) list"

text \<open>
  The exception classes of the module (\<open>ContentFilteredError\<close>, \<open>EmptyResponseError\<close>
  and \<open>VSCodeLLMConnectionError\<close> are subclasses of \<open>VSCodeLLMError\<close>), each with its
  message; \<^verbatim>\<open>aiohttp.ClientError\<close> with the text of \<^verbatim>\<open>str(e)\<close>; the built-in
  exceptions that subscripting and attribute access raise; the \<open>TimeoutError\<close> that
  the total timeout of a request raises (\<^verbatim>\<open>asyncio.TimeoutError\<close>, not a
  \<^verbatim>\<open>ClientError\<close>); the \<^verbatim>\<open>json.JSONDecodeError\<close> of \<^verbatim>\<open>response.json()\<close>;
  \<open>ValueError\<close>; and whatever the Anthropic SDK raises from
  \<^verbatim>\<open>client.messages.create\<close>.
\<close>

datatype exn =
    VSCodeLLMError string
  | ContentFilteredError string
  | EmptyResponseError string
  | VSCodeLLMConnectionError string
  | AiohttpClientError string
  | KeyError string
  | IndexError
  | TypeError
  | AttributeError
  | TimeoutError
  | JSONDecodeError string
  | ValueError string
  | AnthropicError string

text \<open>\<^verbatim>\<open>except VSCodeLLMError\<close> matches the class and its three subclasses.\<close>

fun is_VSCodeLLMError :: "exn \<Rightarrow> bool" where
  "is_VSCodeLLMError (VSCodeLLMError m) = True"
| "is_VSCodeLLMError (ContentFilteredError m) = True"
| "is_VSCodeLLMError (EmptyResponseError m) = True"
| "is_VSCodeLLMError (VSCodeLLMConnectionError m) = True"
| "is_VSCodeLLMError e = False"

datatype event =
    Post nat
  | Sleep nat
  | AnthropicCreate

subsection \<open>Python operations on decoded JSON\<close>

text \<open>Truth value of a decoded JSON value (\<^verbatim>\<open>not x\<close> is its negation).\<close>

fun truthy :: "json \<Rightarrow> bool" where
  "truthy JNull = False"
| "truthy (JBool b) = b"
| "truthy (JNum x) = (x \<noteq> 0)"
| "truthy (JStr s) = (s \<noteq> [])"
| "truthy (JArr xs) = (xs \<noteq> [])"
| "truthy (JObj kvs) = (kvs \<noteq> [])"

text \<open>\<^verbatim>\<open>x.get(key)\<close>: only a dict has the method; a missing key gives \<open>None\<close>.\<close>

fun py_get :: "json \<Rightarrow> string \<Rightarrow> exn + json" where
  "py_get (JObj kvs) k = (case map_of kvs k of None \<Rightarrow> Inr JNull | Some v \<Rightarrow> Inr v)"
| "py_get x k = Inl AttributeError"

text \<open>\<^verbatim>\<open>x.get(key, default)\<close>: a missing key gives the default.\<close>

fun py_get_default :: "json \<Rightarrow> string \<Rightarrow> json \<Rightarrow> exn + json" where
  "py_get_default (JObj kvs) k d = (case map_of kvs k of None \<Rightarrow> Inr d | Some v \<Rightarrow> Inr v)"
| "py_get_default x k d = Inl AttributeError"

text \<open>
  \<^verbatim>\<open>x[0]\<close>: the first element of a list, the first character of a string, a
  \<open>KeyError\<close> on a dict (the keys of a decoded object are strings), an \<open>IndexError\<close>
  on an empty sequence and a \<open>TypeError\<close> on anything else.
\<close>

fun py_index0 :: "json \<Rightarrow> exn + json" where
  "py_index0 (JArr []) = Inl IndexError"
| "py_index0 (JArr (x # xs)) = Inr x"
| "py_index0 (JStr []) = Inl IndexError"
| "py_index0 (JStr (c # cs)) = Inr (JStr [c])"
| "py_index0 (JObj kvs) = Inl (KeyError ''0'')"
| "py_index0 x = Inl TypeError"

text \<open>\<^verbatim>\<open>x[key]\<close> for a string key: a dict lookup that raises \<open>KeyError\<close> on a
  missing key; lists, strings and scalars do not take a string subscript.\<close>

fun py_item :: "json \<Rightarrow> string \<Rightarrow> exn + json" where
  "py_item (JObj kvs) k = (case map_of kvs k of None \<Rightarrow> Inl (KeyError k) | Some v \<Rightarrow> Inr v)"
| "py_item x k = Inl TypeError"

subsection \<open>Strings\<close>

text \<open>\<^verbatim>\<open>str.lower()\<close> on the ASCII letters; every other character is kept.\<close>

definition lower_char :: "char \<Rightarrow> char" where
  "lower_char c =
     (case map_of (zip ''ABCDEFGHIJKLMNOPQRSTUVWXYZ'' ''abcdefghijklmnopqrstuvwxyz'') c of
        None \<Rightarrow> c
      | Some d \<Rightarrow> d)"

definition lower :: "string \<Rightarrow> string" where
  "lower s = map lower_char s"

text \<open>\<^verbatim>\<open>sub in s\<close> for strings: \<open>sub\<close> occurs in \<open>s\<close> as a contiguous run.\<close>

fun starts_with :: "string \<Rightarrow> string \<Rightarrow> bool" where
  "starts_with [] s = True"
| "starts_with (c # cs) [] = False"
| "starts_with (c # cs) (d # ds) = (c = d \<and> starts_with cs ds)"

fun str_contains :: "string \<Rightarrow> string \<Rightarrow> bool" where
  "str_contains sub [] = (sub = [])"
| "str_contains sub (d # ds) = (starts_with sub (d # ds) \<or> str_contains sub ds)"

text \<open>Decimal rendering of an integer, as an f-string formats it.\<close>

definition digit_char :: "nat \<Rightarrow> char" where
  "digit_char d = ''0123456789'' ! d"

fun str_nat :: "nat \<Rightarrow> string" where
  "str_nat n = (if n < 10 then [digit_char n] else str_nat (n div 10) @ [digit_char (n mod 10)])"

declare str_nat.simps [simp del]

definition str_int :: "int \<Rightarrow> string" where
  "str_int i = (if i < 0 then CHR ''-'' # str_nat (nat (- i)) else str_nat (nat i))"

subsection \<open>The environment of a run\<close>

text \<open>
  What one request to the primary backend does: \<^verbatim>\<open>session.post\<close> (or reading the
  body) raises \<^verbatim>\<open>aiohttp.ClientError\<close>; the request takes longer than its
  \<^verbatim>\<open>ClientTimeout(total=120)\<close> and raises \<open>TimeoutError\<close>; a response with status
  200 arrives whose body is not JSON, and \<^verbatim>\<open>response.json()\<close> raises
  \<^verbatim>\<open>json.JSONDecodeError\<close>; or a response arrives with its status, the text
  \<^verbatim>\<open>response.text()\<close> returns and the value \<^verbatim>\<open>response.json()\<close> returns.
\<close>

datatype http_outcome =
    RaisesClientError string
  | RaisesTimeoutError
  | RaisesJSONDecodeError string
  | HttpResponse int string json

text \<open>A content block of the secondary's response: it has a \<open>text\<close> attribute or not.\<close>

datatype block = TextBlock string | NonTextBlock

datatype sdk_outcome =
    CreateRaises exn
  | CreateReturns "block list"

text \<open>
  The module constant \<open>VSCODE_MAX_RETRIES\<close> (3 in the source) is a field, so that the
  loop is verified for every bound; the two environment variables are what
  \<^verbatim>\<open>os.getenv\<close> returns for them; \<open>primary k\<close> is the outcome of the request of
  attempt \<open>k\<close> (counted from 0).
\<close>

record world =
  VSCODE_MAX_RETRIES :: nat
  VSCODE_LLM_FALLBACK :: "string option"
  ANTHROPIC_API_KEY :: "string option"
  primary :: "nat \<Rightarrow> http_outcome"
  secondary :: sdk_outcome

text \<open>\<^verbatim>\<open>os.getenv('VSCODE_LLM_FALLBACK', 'true').lower() == 'true'\<close>\<close>

definition VSCODE_LLM_FALLBACK_ENABLED :: "world \<Rightarrow> bool" where
  "VSCODE_LLM_FALLBACK_ENABLED w =
     (lower (case VSCODE_LLM_FALLBACK w of None \<Rightarrow> ''true'' | Some s \<Rightarrow> s) = ''true'')"

text \<open>Truth value of what \<^verbatim>\<open>os.getenv\<close> returns: \<open>None\<close> and the empty string are false.\<close>

fun env_truthy :: "string option \<Rightarrow> bool" where
  "env_truthy None = False"
| "env_truthy (Some s) = (s \<noteq> [])"

subsection \<open>call_vscode_llm\<close>

text \<open>
  Lines 104 to 120: the body of a 200 response, up to \<^verbatim>\<open>return content\<close>. The two
  \<^verbatim>\<open>usage.get\<close> calls of lines 117 and 118 are evaluated for the \<^verbatim>\<open>print\<close>, when
  \<open>usage\<close> is true.
\<close>

definition read_content :: "json \<Rightarrow> exn + json" where
  "read_content data =
     (case py_get data ''choices'' of
        Inl e \<Rightarrow> Inl e
      | Inr choices \<Rightarrow>
          if \<not> truthy choices then Inl (EmptyResponseError ''No choices in response'')
          else
            (case py_index0 choices of
               Inl e \<Rightarrow> Inl e
             | Inr choice \<Rightarrow>
                 (case py_item choice ''message'' of
                    Inl e \<Rightarrow> Inl e
                  | Inr message \<Rightarrow>
                      (case py_item message ''content'' of
                         Inl e \<Rightarrow> Inl e
                       | Inr content \<Rightarrow>
                           if \<not> truthy content
                           then Inl (EmptyResponseError ''Empty content in response'')
                           else
                             (case py_get_default data ''usage'' (JObj []) of
                                Inl e \<Rightarrow> Inl e
                              | Inr usage \<Rightarrow>
                                  if truthy usage then
                                    (case py_get_default usage ''prompt_tokens'' (JStr ''?'') of
                                       Inl e \<Rightarrow> Inl e
                                     | Inr prompt_tokens \<Rightarrow>
                                         (case py_get_default usage ''completion_tokens''
                                                 (JStr ''?'') of
                                            Inl e \<Rightarrow> Inl e
                                          | Inr completion_tokens \<Rightarrow> Inr content))
                                  else Inr content)))))"

text \<open>Lines 91 to 120: the body of the \<^verbatim>\<open>try\<close> statement of one attempt.\<close>

definition try_body :: "http_outcome \<Rightarrow> exn + json" where
  "try_body r =
     (case r of
        RaisesClientError m \<Rightarrow> Inl (AiohttpClientError m)
      | RaisesTimeoutError \<Rightarrow> Inl TimeoutError
      | RaisesJSONDecodeError m \<Rightarrow> Inl (JSONDecodeError m)
      | HttpResponse status error_text data \<Rightarrow>
          if status \<noteq> 200 then
            (if str_contains ''filtered'' (lower error_text)
             then Inl (ContentFilteredError (''Content filtered: '' @ error_text))
             else Inl (VSCodeLLMError
                    (''API error ('' @ str_int status @ ''): '' @ error_text)))
          else read_content data)"

text \<open>
  How the \<^verbatim>\<open>try\<close> statement of one attempt ends: \<^verbatim>\<open>return content\<close>; an
  \<^verbatim>\<open>except\<close> clause caught the exception and stored the new \<open>last_error\<close>; or no
  clause matched and the exception leaves the function.
\<close>

datatype attempt_result =
    is_Returned: Returned json
  | is_Recorded: Recorded (recorded: exn)
  | is_Escaped: Escaped exn

text \<open>Lines 122 to 132: the three \<^verbatim>\<open>except\<close> clauses.\<close>

fun except_clauses :: "exn \<Rightarrow> attempt_result" where
  "except_clauses (AiohttpClientError m) =
     Recorded (VSCodeLLMConnectionError (''Connection error: '' @ m))"
| "except_clauses (ContentFilteredError m) = Recorded (ContentFilteredError m)"
| "except_clauses (EmptyResponseError m) = Recorded (EmptyResponseError m)"
| "except_clauses (VSCodeLLMError m) = Recorded (VSCodeLLMError m)"
| "except_clauses (VSCodeLLMConnectionError m) = Recorded (VSCodeLLMConnectionError m)"
| "except_clauses e = Escaped e"

text \<open>Lines 90 to 132: the whole \<^verbatim>\<open>try\<close> statement.\<close>

definition try_statement :: "http_outcome \<Rightarrow> attempt_result" where
  "try_statement r =
     (case try_body r of Inr content \<Rightarrow> Returned content | Inl e \<Rightarrow> except_clauses e)"

text \<open>Lines 134 to 138: the sleep after a failed attempt that is not the last one.\<close>

definition backoff :: "nat \<Rightarrow> nat \<Rightarrow> event list" where
  "backoff N attempt =
     (if int attempt < int N - 1 then [Sleep (2 ^ (attempt + 1))] else [])"

text \<open>
  Lines 89 to 141: the \<^verbatim>\<open>for attempt in range(VSCODE_MAX_RETRIES)\<close> loop over the
  attempts still to run, with \<open>last_error\<close> as its state, and the final
  \<^verbatim>\<open>raise last_error or VSCodeLLMError("All retries failed")\<close>.
\<close>

fun retry_loop ::
  "nat \<Rightarrow> (nat \<Rightarrow> http_outcome) \<Rightarrow> nat list \<Rightarrow> exn option \<Rightarrow> (exn + json) \<times> event list"
where
  "retry_loop N p [] last_error =
     (Inl (case last_error of Some e \<Rightarrow> e | None \<Rightarrow> VSCodeLLMError ''All retries failed''), [])"
| "retry_loop N p (attempt # rest) last_error =
     (case try_statement (p attempt) of
        Returned content \<Rightarrow> (Inr content, [Post attempt])
      | Escaped e \<Rightarrow> (Inl e, [Post attempt])
      | Recorded e \<Rightarrow>
          (let (r, evs) = retry_loop N p rest (Some e)
           in (r, Post attempt # backoff N attempt @ evs)))"

definition call_vscode_llm :: "world \<Rightarrow> (exn + json) \<times> event list" where
  "call_vscode_llm w =
     retry_loop (VSCODE_MAX_RETRIES w) (primary w) [0 ..< VSCODE_MAX_RETRIES w] None"

subsection \<open>call_anthropic_fallback\<close>

text \<open>Lines 182 to 185: the texts of the blocks that have one, concatenated.\<close>

fun block_texts :: "block list \<Rightarrow> string" where
  "block_texts [] = []"
| "block_texts (TextBlock t # bs) = t @ block_texts bs"
| "block_texts (NonTextBlock # bs) = block_texts bs"

definition call_anthropic_fallback :: "world \<Rightarrow> (exn + json) \<times> event list" where
  "call_anthropic_fallback w =
     (if \<not> env_truthy (ANTHROPIC_API_KEY w)
      then (Inl (ValueError ''ANTHROPIC_API_KEY not set - cannot use fallback''), [])
      else
        (case secondary w of
           CreateRaises e \<Rightarrow> (Inl e, [AnthropicCreate])
         | CreateReturns blocks \<Rightarrow> (Inr (JStr (block_texts blocks)), [AnthropicCreate])))"

subsection \<open>call_llm_with_fallback\<close>

definition call_llm_with_fallback :: "world \<Rightarrow> (exn + json) \<times> event list" where
  "call_llm_with_fallback w =
     (case call_vscode_llm w of
        (Inr content, evs) \<Rightarrow> (Inr content, evs)
      | (Inl e, evs) \<Rightarrow>
          if is_VSCodeLLMError e then
            (if \<not> VSCODE_LLM_FALLBACK_ENABLED w then (Inl e, evs)
             else if \<not> env_truthy (ANTHROPIC_API_KEY w) then (Inl e, evs)
             else (let (r, evs') = call_anthropic_fallback w in (r, evs @ evs')))
          else (Inl e, evs))"

subsection \<open>Reading a run\<close>

text \<open>The attempts whose request was sent, in order.\<close>

fun posts :: "event list \<Rightarrow> nat list" where
  "posts [] = []"
| "posts (Post a # evs) = a # posts evs"
| "posts (ev # evs) = posts evs"

text \<open>The delays slept, in order.\<close>

fun sleeps :: "event list \<Rightarrow> nat list" where
  "sleeps [] = []"
| "sleeps (Sleep d # evs) = d # sleeps evs"
| "sleeps (ev # evs) = sleeps evs"

text \<open>
  The \<open>usage\<close> entry of an object body with which lines 114 to 118 do not raise: it is
  absent, false, or an object.
\<close>

fun is_dict :: "json \<Rightarrow> bool" where
  "is_dict (JObj kvs) = True"
| "is_dict x = False"

definition usage_ok :: "(string \<times> json) list \<Rightarrow> bool" where
  "usage_ok kvs =
     (case map_of kvs ''usage'' of None \<Rightarrow> True | Some usage \<Rightarrow> \<not> truthy usage \<or> is_dict usage)"

text \<open>
  The error kinds of the specification, and the kind of each exception class of the
  module. No class stands for \<open>FallbackUnavailable\<close>; the exceptions that are not of
  the module have no kind.
\<close>

datatype kind = ConnectionError | ContentFiltered | EmptyResponse | ProtocolError | FallbackUnavailable

fun taxonomy_kind :: "exn \<Rightarrow> kind option" where
  "taxonomy_kind (VSCodeLLMConnectionError m) = Some ConnectionError"
| "taxonomy_kind (ContentFilteredError m) = Some ContentFiltered"
| "taxonomy_kind (EmptyResponseError m) = Some EmptyResponse"
| "taxonomy_kind (VSCodeLLMError m) = Some ProtocolError"
| "taxonomy_kind e = None"


subsection \<open>Example runs\<close>

text \<open>The proxy is not running: every request is refused; no fallback key is set.\<close>

definition run_refused :: world where
  "run_refused =
     \<lparr> VSCODE_MAX_RETRIES = 3, VSCODE_LLM_FALLBACK = None, ANTHROPIC_API_KEY = None,
       primary = (\<lambda>k. RaisesClientError ''Cannot connect to host 127.0.0.1:8080''),
       secondary = CreateReturns [] \<rparr>"

text \<open>The proxy answers 503 to every request; the fallback is enabled and answers.\<close>

definition run_503 :: world where
  "run_503 =
     \<lparr> VSCODE_MAX_RETRIES = 3, VSCODE_LLM_FALLBACK = Some ''True'',
       ANTHROPIC_API_KEY = Some ''sk-ant'',
       primary = (\<lambda>k. HttpResponse 503 ''service unavailable'' JNull),
       secondary = CreateReturns [TextBlock ''Four'', NonTextBlock, TextBlock ''.''] \<rparr>"

text \<open>The first request is refused, the second is answered.\<close>

definition answer_four :: json where
  "answer_four =
     JObj [(''choices'',
            JArr [JObj [(''message'', JObj [(''role'', JStr ''assistant''),
                                            (''content'', JStr ''Four'')]),
                        (''finish_reason'', JStr ''stop'')]]),
           (''usage'', JObj [(''prompt_tokens'', JNum 21), (''completion_tokens'', JNum 1)])]"


text \<open>Two attempts, both answered with an empty content; the fallback is disabled.\<close>

definition empty_content :: json where
  "empty_content = JObj [(''choices'', JArr [JObj [(''message'', JObj [(''content'', JStr [])])]])]"

definition run_empty :: world where
  "run_empty =
     \<lparr> VSCODE_MAX_RETRIES = 2, VSCODE_LLM_FALLBACK = Some ''false'',
       ANTHROPIC_API_KEY = Some ''sk-ant'',
       primary = (\<lambda>k. HttpResponse 200 [] empty_content),
       secondary = CreateReturns [TextBlock ''4''] \<rparr>"

text \<open>The primary is refused once and the secondary fails too.\<close>

definition run_fallback_fails :: world where
  "run_fallback_fails =
     \<lparr> VSCODE_MAX_RETRIES = 1, VSCODE_LLM_FALLBACK = None,
       ANTHROPIC_API_KEY = Some ''sk-ant'',
       primary = (\<lambda>k. RaisesClientError ''Cannot connect to host 127.0.0.1:8080''),
       secondary = CreateRaises (AnthropicError ''Error code: 529 - overloaded_error'') \<rparr>"

text \<open>A 200 response whose first choice has no \<open>message\<close>, and one whose message has
  no \<open>content\<close>; the fallback is enabled and would answer.\<close>

definition no_message :: json where
  "no_message = JObj [(''choices'', JArr [JObj [(''finish_reason'', JStr ''stop'')]])]"

definition no_content :: json where
  "no_content =
     JObj [(''choices'', JArr [JObj [(''message'', JObj [(''role'', JStr ''assistant'')])]])]"

definition run_malformed :: "json \<Rightarrow> world" where
  "run_malformed body =
     \<lparr> VSCODE_MAX_RETRIES = 3, VSCODE_LLM_FALLBACK = None,
       ANTHROPIC_API_KEY = Some ''sk-ant'',
       primary = (\<lambda>k. HttpResponse 200 [] body),
       secondary = CreateReturns [TextBlock ''4''] \<rparr>"

text \<open>The proxy accepts every request and does not answer within 120 seconds; the
  fallback is enabled and would answer.\<close>

definition run_timeout :: world where
  "run_timeout =
     \<lparr> VSCODE_MAX_RETRIES = 3, VSCODE_LLM_FALLBACK = None,
       ANTHROPIC_API_KEY = Some ''sk-ant'',
       primary = (\<lambda>k. RaisesTimeoutError),
       secondary = CreateReturns [TextBlock ''4''] \<rparr>"

text \<open>A 200 response with the answer and a \<open>usage\<close> entry that is a string.\<close>

definition answer_usage_string :: json where
  "answer_usage_string =
     JObj [(''choices'', JArr [JObj [(''message'', JObj [(''content'', JStr ''Four'')])]]),
           (''usage'', JStr ''n/a'')]"


section \<open>Lemmas about the strings and the retry loop\<close>


lemma starts_with_iff: "starts_with sub s \<longleftrightarrow> (\<exists>suf. s = sub @ suf)"
  by (induction sub s rule: starts_with.induct) auto

lemma str_contains_iff: "str_contains sub s \<longleftrightarrow> (\<exists>pre suf. s = pre @ sub @ suf)"
proof (induction s)
  case Nil
  then show ?case by auto
next
  case (Cons d ds)
  show ?case
  proof
    assume "str_contains sub (d # ds)"
    then consider "starts_with sub (d # ds)" | "str_contains sub ds" by auto
    then show "\<exists>pre suf. d # ds = pre @ sub @ suf"
    proof cases
      case 1
      then obtain suf where "d # ds = sub @ suf" by (auto simp: starts_with_iff)
      then have "d # ds = [] @ sub @ suf" by simp
      then show ?thesis by blast
    next
      case 2
      then obtain pre suf where "ds = pre @ sub @ suf" using Cons.IH by auto
      then have "d # ds = (d # pre) @ sub @ suf" by simp
      then show ?thesis by blast
    qed
  next
    assume "\<exists>pre suf. d # ds = pre @ sub @ suf"
    then obtain pre suf where eq: "d # ds = pre @ sub @ suf" by auto
    show "str_contains sub (d # ds)"
    proof (cases pre)
      case Nil
      then have "starts_with sub (d # ds)" using eq by (auto simp: starts_with_iff)
      then show ?thesis by simp
    next
      case (Cons x pre')
      then have "ds = pre' @ sub @ suf" using eq by simp
      then have "str_contains sub ds" using Cons.IH by blast
      then show ?thesis by simp
    qed
  qed
qed

lemma retry_loop_all_recorded_events:
  "\<forall>a\<in>set as. is_Recorded (try_statement (p a)) \<Longrightarrow>
   snd (retry_loop N p as le) = concat (map (\<lambda>a. Post a # backoff N a) as)"
  by (induction as arbitrary: le) (auto split: attempt_result.splits simp: case_prod_beta)

lemma retry_loop_all_recorded_result:
  "\<forall>a\<in>set as. is_Recorded (try_statement (p a)) \<Longrightarrow> as \<noteq> [] \<Longrightarrow>
   fst (retry_loop N p as le) = Inl (recorded (try_statement (p (last as))))"
proof (induction as arbitrary: le)
  case Nil
  then show ?case by simp
next
  case (Cons a as)
  then obtain e where e: "try_statement (p a) = Recorded e"
    by (cases "try_statement (p a)") auto
  show ?case
  proof (cases "as = []")
    case True
    then show ?thesis using e by simp
  next
    case False
    then have "fst (retry_loop N p as (Some e)) = Inl (recorded (try_statement (p (last as))))"
      using Cons by simp
    then show ?thesis using e False by (simp add: case_prod_beta)
  qed
qed

lemma retry_loop_stops:
  "\<forall>a\<in>set pre. is_Recorded (try_statement (p a)) \<Longrightarrow> \<not> is_Recorded (try_statement (p k)) \<Longrightarrow>
   retry_loop N p (pre @ k # post) le =
     ((case try_statement (p k) of Returned c \<Rightarrow> Inr c | Escaped e \<Rightarrow> Inl e | Recorded e \<Rightarrow> Inl e),
      concat (map (\<lambda>a. Post a # backoff N a) pre) @ [Post k])"
  by (induction pre arbitrary: le) (auto split: attempt_result.splits simp: case_prod_beta)

lemma upt_split: "k < N \<Longrightarrow> [0..<N] = [0..<k] @ k # [Suc k..<N]"
  by (metis le_add2 le_add_same_cancel2 less_imp_add_positive upt_add_eq_append upt_conv_Cons)

lemma backoff_events_upto:
  "k < N \<Longrightarrow> concat (map (\<lambda>a. Post a # backoff N a) [0..<k]) =
     concat (map (\<lambda>i. [Post i, Sleep (2 ^ (i + 1))]) [0..<k])"
  by (rule arg_cong[where f=concat], rule map_cong) (auto simp: backoff_def)


lemma except_clauses_Recorded: "except_clauses e = Recorded e' \<Longrightarrow> is_VSCodeLLMError e'"
  by (cases e) auto


lemma try_statement_Recorded: "try_statement r = Recorded e \<Longrightarrow> is_VSCodeLLMError e"
  by (auto simp: try_statement_def split: sum.splits dest: except_clauses_Recorded)


lemma first_unrecorded:
  assumes "\<not> (\<forall>k<N::nat. is_Recorded (try_statement (p k)))"
  shows "\<exists>k<N. (\<forall>j<k. is_Recorded (try_statement (p j))) \<and> \<not> is_Recorded (try_statement (p k))"
proof -
  from assms have "\<exists>k. k < N \<and> \<not> is_Recorded (try_statement (p k))" by auto
  then obtain k where k: "k < N \<and> \<not> is_Recorded (try_statement (p k))"
    and least: "\<forall>j<k. \<not> (j < N \<and> \<not> is_Recorded (try_statement (p j)))"
    using exists_least_iff[of "\<lambda>k. k < N \<and> \<not> is_Recorded (try_statement (p k))"] by blast
  have "\<forall>j<k. is_Recorded (try_statement (p j))"
  proof (intro allI impI)
    fix j assume "j < k"
    then have "j < N" using k by simp
    with least \<open>j < k\<close> show "is_Recorded (try_statement (p j))" by blast
  qed
  with k show ?thesis by blast
qed

lemma call_vscode_llm_all_recorded_events:
  assumes "\<forall>k<VSCODE_MAX_RETRIES w. is_Recorded (try_statement (primary w k))"
  shows "snd (call_vscode_llm w) =
     concat (map (\<lambda>a. Post a # backoff (VSCODE_MAX_RETRIES w) a) [0..<VSCODE_MAX_RETRIES w])"
  unfolding call_vscode_llm_def
  by (rule retry_loop_all_recorded_events) (use assms in auto)

lemma call_vscode_llm_all_recorded_result:
  assumes "\<forall>k<VSCODE_MAX_RETRIES w. is_Recorded (try_statement (primary w k))"
    and "0 < VSCODE_MAX_RETRIES w"
  shows "fst (call_vscode_llm w) =
     Inl (recorded (try_statement (primary w (VSCODE_MAX_RETRIES w - 1))))"
proof -
  have ne: "[0..<VSCODE_MAX_RETRIES w] \<noteq> []" using assms(2) by simp
  have "last [0..<VSCODE_MAX_RETRIES w] = VSCODE_MAX_RETRIES w - 1"
    using assms(2) by (metis last_upt)
  moreover have "fst (retry_loop (VSCODE_MAX_RETRIES w) (primary w) [0..<VSCODE_MAX_RETRIES w] None) =
      Inl (recorded (try_statement (primary w (last [0..<VSCODE_MAX_RETRIES w]))))"
    by (rule retry_loop_all_recorded_result) (use assms ne in auto)
  ultimately show ?thesis by (simp add: call_vscode_llm_def)
qed

lemma call_vscode_llm_stops:
  assumes "k < VSCODE_MAX_RETRIES w"
    and "\<forall>j<k. is_Recorded (try_statement (primary w j))"
    and "\<not> is_Recorded (try_statement (primary w k))"
  shows "call_vscode_llm w =
     ((case try_statement (primary w k) of
         Returned c \<Rightarrow> Inr c | Escaped e \<Rightarrow> Inl e | Recorded e \<Rightarrow> Inl e),
      concat (map (\<lambda>i. [Post i, Sleep (2 ^ (i + 1))]) [0..<k]) @ [Post k])"
proof -
  have "retry_loop (VSCODE_MAX_RETRIES w) (primary w) ([0..<k] @ k # [Suc k..<VSCODE_MAX_RETRIES w]) None =
     ((case try_statement (primary w k) of
         Returned c \<Rightarrow> Inr c | Escaped e \<Rightarrow> Inl e | Recorded e \<Rightarrow> Inl e),
      concat (map (\<lambda>a. Post a # backoff (VSCODE_MAX_RETRIES w) a) [0..<k]) @ [Post k])"
    by (rule retry_loop_stops) (use assms in auto)
  then show ?thesis
    using assms(1) by (simp add: call_vscode_llm_def upt_split[symmetric] backoff_events_upto)
qed

lemma posts_append: "posts (xs @ ys) = posts xs @ posts ys"
  by (induction xs rule: posts.induct) auto

lemma sleeps_append: "sleeps (xs @ ys) = sleeps xs @ sleeps ys"
  by (induction xs rule: sleeps.induct) auto

lemma posts_alternating:
  "posts (concat (map (\<lambda>i. [Post i, Sleep (f i)]) xs)) = xs"
  by (induction xs) auto

lemma sleeps_alternating:
  "sleeps (concat (map (\<lambda>i. [Post i, Sleep (f i)]) xs)) = map f xs"
  by (induction xs) auto

lemma no_create_alternating:
  "AnthropicCreate \<notin> set (concat (map (\<lambda>i. [Post i, Sleep (f i)]) xs))"
  by (induction xs) auto

lemma no_create_retry_loop: "AnthropicCreate \<notin> set (snd (retry_loop N p as le))"
  by (induction as arbitrary: le) (auto split: attempt_result.splits simp: case_prod_beta backoff_def)

lemma all_recorded_events_alternating:
  assumes "0 < N"
  shows "concat (map (\<lambda>a. Post a # backoff N a) [0..<N]) =
     concat (map (\<lambda>i. [Post i, Sleep (2 ^ (i + 1))]) [0..<N - 1]) @ [Post (N - 1)]"
proof -
  obtain M where N: "N = Suc M" using assms by (cases N) auto
  have "concat (map (\<lambda>a. Post a # backoff N a) [0..<M]) =
     concat (map (\<lambda>i. [Post i, Sleep (2 ^ (i + 1))]) [0..<M])"
    by (rule backoff_events_upto) (simp add: N)
  moreover have "backoff N M = []" by (simp add: backoff_def N)
  ultimately show ?thesis by (simp add: N)
qed

text \<open>The facts that evaluate a run on a concrete world.\<close>

lemmas run_simps = call_llm_with_fallback_def call_vscode_llm_def call_anthropic_fallback_def
  VSCODE_LLM_FALLBACK_ENABLED_def lower_def lower_char_def try_statement_def try_body_def
  read_content_def backoff_def str_int_def digit_char_def upt_rec

lemma pipeline_primary_returns:
  "fst (call_vscode_llm w) = Inr v \<Longrightarrow> call_llm_with_fallback w = call_vscode_llm w"
  by (cases "call_vscode_llm w") (simp add: call_llm_with_fallback_def)

lemma pipeline_no_fallback:
  "fst (call_vscode_llm w) = Inl e \<Longrightarrow>
   \<not> (is_VSCodeLLMError e \<and> VSCODE_LLM_FALLBACK_ENABLED w \<and> env_truthy (ANTHROPIC_API_KEY w)) \<Longrightarrow>
   call_llm_with_fallback w = call_vscode_llm w"
  by (cases "call_vscode_llm w") (auto simp add: call_llm_with_fallback_def)

lemma pipeline_fallback:
  "fst (call_vscode_llm w) = Inl e \<Longrightarrow> is_VSCodeLLMError e \<Longrightarrow>
   VSCODE_LLM_FALLBACK_ENABLED w \<Longrightarrow> env_truthy (ANTHROPIC_API_KEY w) \<Longrightarrow>
   call_llm_with_fallback w =
     ((case secondary w of CreateRaises e' \<Rightarrow> Inl e' | CreateReturns bs \<Rightarrow> Inr (JStr (block_texts bs))),
      snd (call_vscode_llm w) @ [AnthropicCreate])"
  by (cases "call_vscode_llm w")
     (auto simp add: call_llm_with_fallback_def call_anthropic_fallback_def split: sdk_outcome.splits)


lemma call_vscode_llm_Returned:
  assumes "k < VSCODE_MAX_RETRIES w"
    and "\<forall>j<k. is_Recorded (try_statement (primary w j))"
    and "try_statement (primary w k) = Returned v"
  shows "call_vscode_llm w =
     (Inr v, concat (map (\<lambda>i. [Post i, Sleep (2 ^ (i + 1))]) [0..<k]) @ [Post k])"
  using call_vscode_llm_stops[OF assms(1,2)] assms(3) by simp

lemma call_vscode_llm_Escaped:
  assumes "k < VSCODE_MAX_RETRIES w"
    and "\<forall>j<k. is_Recorded (try_statement (primary w j))"
    and "try_statement (primary w k) = Escaped e"
  shows "call_vscode_llm w =
     (Inl e, concat (map (\<lambda>i. [Post i, Sleep (2 ^ (i + 1))]) [0..<k]) @ [Post k])"
  using call_vscode_llm_stops[OF assms(1,2)] assms(3) by simp

lemma call_vscode_llm_all_recorded:
  assumes "0 < VSCODE_MAX_RETRIES w"
    and "\<forall>k<VSCODE_MAX_RETRIES w. is_Recorded (try_statement (primary w k))"
  shows "call_vscode_llm w =
     (Inl (recorded (try_statement (primary w (VSCODE_MAX_RETRIES w - 1)))),
      concat (map (\<lambda>i. [Post i, Sleep (2 ^ (i + 1))]) [0..<VSCODE_MAX_RETRIES w - 1])
        @ [Post (VSCODE_MAX_RETRIES w - 1)])"
  using call_vscode_llm_all_recorded_events[OF assms(2)]
    call_vscode_llm_all_recorded_result[OF assms(2,1)]
    all_recorded_events_alternating[OF assms(1)]
  by (metis prod.collapse)

lemma call_vscode_llm_cases:
  obtains (all_fail) "\<forall>k<VSCODE_MAX_RETRIES w. is_Recorded (try_statement (primary w k))"
  | (returns) k v where "k < VSCODE_MAX_RETRIES w"
      "\<forall>j<k. is_Recorded (try_statement (primary w j))"
      "try_statement (primary w k) = Returned v"
  | (escapes) k e where "k < VSCODE_MAX_RETRIES w"
      "\<forall>j<k. is_Recorded (try_statement (primary w j))"
      "try_statement (primary w k) = Escaped e"
proof (cases "\<forall>k<VSCODE_MAX_RETRIES w. is_Recorded (try_statement (primary w k))")
  case True
  then show ?thesis by (rule all_fail)
next
  case False
  then obtain k where k: "k < VSCODE_MAX_RETRIES w"
      "\<forall>j<k. is_Recorded (try_statement (primary w j))"
      "\<not> is_Recorded (try_statement (primary w k))"
    using first_unrecorded[of "VSCODE_MAX_RETRIES w" "primary w"] by blast
  show ?thesis
  proof (cases "try_statement (primary w k)")
    case (Returned v)
    with k show ?thesis by (auto intro: returns)
  next
    case (Recorded e)
    with k show ?thesis by simp
  next
    case (Escaped e)
    with k show ?thesis by (auto intro: escapes)
  qed
qed

lemma try_statement_client_error:
  "try_statement (RaisesClientError m) =
     Recorded (VSCodeLLMConnectionError (''Connection error: '' @ m))"
  by (simp add: try_statement_def try_body_def)

lemma pipeline_events_extend:
  "\<exists>rest. snd (call_llm_with_fallback w) = snd (call_vscode_llm w) @ rest \<and>
      (rest = [] \<or> rest = [AnthropicCreate])"
  by (cases "call_vscode_llm w")
     (auto simp: call_llm_with_fallback_def call_anthropic_fallback_def
           split: sum.splits sdk_outcome.splits)

section \<open>The claims\<close>

text \<open>
  In what follows, attempt \<open>k\<close> (counted from 0) \<^emph>\<open>fails\<close> when its \<^verbatim>\<open>try\<close> statement
  ends in an \<^verbatim>\<open>except\<close> clause: \<open>is_Recorded (try_statement (primary w k))\<close>.
\<close>

text \<open>
  When every one of the \<open>N = VSCODE_MAX_RETRIES\<close> requests to the primary backend raises
  \<^verbatim>\<open>aiohttp.ClientError\<close>, the retry loop sends exactly the requests of the attempts
  \<open>0, ..., N - 1\<close>, in this order, and raises the connection error of the last one; the
  pipeline sends no further request to the primary, and whatever it does for the
  fallback comes after these \<open>N\<close> requests.
\<close>

lemma client_errors_exactly_N_requests:
  assumes "0 < VSCODE_MAX_RETRIES w"
    and "\<forall>k<VSCODE_MAX_RETRIES w. primary w k = RaisesClientError (msg k)"
  shows "posts (snd (call_vscode_llm w)) = [0..<VSCODE_MAX_RETRIES w] \<and>
         length (posts (snd (call_llm_with_fallback w))) = VSCODE_MAX_RETRIES w \<and>
         fst (call_vscode_llm w) =
           Inl (VSCodeLLMConnectionError
                 (''Connection error: '' @ msg (VSCODE_MAX_RETRIES w - 1))) \<and>
         (\<exists>rest. snd (call_llm_with_fallback w) = snd (call_vscode_llm w) @ rest \<and>
            (rest = [] \<or> rest = [AnthropicCreate]))"
proof -
  let ?N = "VSCODE_MAX_RETRIES w"
  have rec: "\<forall>k<?N. is_Recorded (try_statement (primary w k))"
    using assms(2) by (simp add: try_statement_client_error)
  have run: "call_vscode_llm w =
     (Inl (recorded (try_statement (primary w (?N - 1)))),
      concat (map (\<lambda>i. [Post i, Sleep (2 ^ (i + 1))]) [0..<?N - 1]) @ [Post (?N - 1)])"
    by (rule call_vscode_llm_all_recorded[OF assms(1) rec])
  obtain M where M: "?N = Suc M" using assms(1) by (cases ?N) auto
  have "[0..<?N - 1] @ [?N - 1] = [0..<?N]"
    by (simp add: M)
  then have p: "posts (snd (call_vscode_llm w)) = [0..<?N]"
    by (simp add: run posts_append posts_alternating)
  have "primary w (?N - 1) = RaisesClientError (msg (?N - 1))"
    using assms by simp
  then have r: "fst (call_vscode_llm w) =
      Inl (VSCodeLLMConnectionError (''Connection error: '' @ msg (?N - 1)))"
    by (simp add: run try_statement_client_error)
  obtain rest where rest: "snd (call_llm_with_fallback w) = snd (call_vscode_llm w) @ rest"
      "rest = [] \<or> rest = [AnthropicCreate]"
    using pipeline_events_extend by blast
  then have "posts (snd (call_llm_with_fallback w)) = [0..<?N]"
    using p by (auto simp: posts_append)
  then have l: "length (posts (snd (call_llm_with_fallback w))) = ?N" by simp
  from p l r rest show ?thesis by blast
qed

text \<open>
  Claim C2 does not hold of the code for every transport error. A request that exceeds
  its \<^verbatim>\<open>ClientTimeout(total=120)\<close> raises \<open>TimeoutError\<close>, which is not an
  \<^verbatim>\<open>aiohttp.ClientError\<close> and which no \<^verbatim>\<open>except\<close> clause of the retry loop catches. With
  three attempts allowed and a primary backend that times out on every request, the
  retry loop sends one request and raises \<open>TimeoutError\<close>; the pipeline raises it too,
  after that single request, without sleeping and without calling the secondary
  backend. A primary backend that refuses every connection gets the three requests.
\<close>

theorem C2_timeout_is_not_retried:
  "VSCODE_MAX_RETRIES run_timeout = 3 \<and>
   primary run_timeout 0 = RaisesTimeoutError \<and>
   primary run_timeout 1 = RaisesTimeoutError \<and>
   primary run_timeout 2 = RaisesTimeoutError \<and>
   try_statement RaisesTimeoutError = Escaped TimeoutError \<and>
   call_vscode_llm run_timeout = (Inl TimeoutError, [Post 0]) \<and>
   posts (snd (call_vscode_llm run_timeout)) = [0] \<and>
   call_llm_with_fallback run_timeout = (Inl TimeoutError, [Post 0]) \<and>
   VSCODE_MAX_RETRIES run_refused = 3 \<and>
   posts (snd (call_vscode_llm run_refused)) = [0, 1, 2]"
  by (simp add: run_timeout_def run_refused_def run_simps)

lemma read_content_empty:
  assumes "map_of kvs ''choices'' = Some (JArr (JObj ckvs # cs))"
    and "map_of ckvs ''message'' = Some (JObj mkvs)"
    and "map_of mkvs ''content'' = Some c"
    and "\<not> truthy c"
  shows "read_content (JObj kvs) = Inl (EmptyResponseError ''Empty content in response'')"
  using assms by (simp add: read_content_def)

lemma read_content_ok:
  assumes "map_of kvs ''choices'' = Some (JArr (JObj ckvs # cs))"
    and "map_of ckvs ''message'' = Some (JObj mkvs)"
    and "map_of mkvs ''content'' = Some c"
    and "truthy c"
    and "usage_ok kvs"
  shows "read_content (JObj kvs) = Inr c"
proof (cases "map_of kvs ''usage''")
  case None
  with assms show ?thesis by (simp add: read_content_def)
next
  case (Some usage)
  with assms(5) have "\<not> truthy usage \<or> is_dict usage" by (simp add: usage_ok_def)
  then show ?thesis
  proof
    assume "\<not> truthy usage"
    with assms Some show ?thesis by (simp add: read_content_def)
  next
    assume "is_dict usage"
    then obtain ukvs where "usage = JObj ukvs" by (cases usage) auto
    with assms Some show ?thesis
      by (simp add: read_content_def split: option.splits)
  qed
qed

lemma last_alternating:
  "last (concat (map (\<lambda>i. [Post i, Sleep (f i)]) xs) @ [Post k]) = Post k"
  by simp

text \<open>
  When attempt \<open>k\<close> (counted from 0, \<open>k < N\<close>) is reached, that is every earlier attempt
  failed, and the primary answers it with status 200 and a body whose first choice has
  a non-empty string as its message content, and whose \<open>usage\<close> entry is absent, false
  or an object, the pipeline returns that content. Result and effects are those of
  \<open>call_vscode_llm\<close> alone. The requests sent are those of the attempts \<open>0, ..., k\<close>
  and no more, the last effect is the request of attempt \<open>k\<close> (no sleep follows it),
  and the secondary backend is never called.
\<close>

lemma primary_success_returns_at_once:
  assumes "k < VSCODE_MAX_RETRIES w"
    and "\<forall>j<k. is_Recorded (try_statement (primary w j))"
    and "primary w k = HttpResponse 200 t (JObj kvs)"
    and "map_of kvs ''choices'' = Some (JArr (JObj ckvs # cs))"
    and "map_of ckvs ''message'' = Some (JObj mkvs)"
    and "map_of mkvs ''content'' = Some (JStr s)"
    and "s \<noteq> []"
    and "usage_ok kvs"
  shows "call_llm_with_fallback w = call_vscode_llm w \<and>
         fst (call_llm_with_fallback w) = Inr (JStr s) \<and>
         posts (snd (call_llm_with_fallback w)) = [0..<Suc k] \<and>
         sleeps (snd (call_llm_with_fallback w)) = map (\<lambda>i. 2 ^ (i + 1)) [0..<k] \<and>
         last (snd (call_llm_with_fallback w)) = Post k \<and>
         AnthropicCreate \<notin> set (snd (call_llm_with_fallback w))"
proof -
  have "read_content (JObj kvs) = Inr (JStr s)"
    using read_content_ok[OF assms(4,5,6) _ assms(8)] assms(7) by simp
  then have ret: "try_statement (primary w k) = Returned (JStr s)"
    using assms(3) by (simp add: try_statement_def try_body_def)
  have run: "call_vscode_llm w =
     (Inr (JStr s), concat (map (\<lambda>i. [Post i, Sleep (2 ^ (i + 1))]) [0..<k]) @ [Post k])"
    by (rule call_vscode_llm_Returned[OF assms(1,2) ret])
  then have same: "call_llm_with_fallback w = call_vscode_llm w"
    by (simp add: pipeline_primary_returns)
  show ?thesis
    unfolding same run
    by (simp add: posts_append posts_alternating sleeps_append sleeps_alternating
        no_create_alternating)
qed

text \<open>
  Claim C3 does not hold of the code for every 200 response with a non-empty content.
  After the content is read, lines 114 to 118 read the \<open>usage\<close> entry of the body for a
  \<^verbatim>\<open>print\<close>, still inside the \<^verbatim>\<open>try\<close> statement: when that entry is true and not an
  object, \<^verbatim>\<open>usage.get\<close> raises \<open>AttributeError\<close>, which no \<^verbatim>\<open>except\<close> clause
  catches. With three attempts allowed, the fallback enabled and its key set, a body
  whose first choice has the content \<open>Four\<close> and whose \<open>usage\<close> is the string \<open>n/a\<close>
  makes the pipeline raise \<open>AttributeError\<close> after the first request instead of
  returning \<open>Four\<close>. The same content with an object as \<open>usage\<close> is returned.
\<close>

theorem C3_usage_lookup_raises:
  "VSCODE_MAX_RETRIES (run_malformed answer_usage_string) = 3 \<and>
   primary (run_malformed answer_usage_string) 0 = HttpResponse 200 [] answer_usage_string \<and>
   py_get answer_usage_string ''choices'' =
     Inr (JArr [JObj [(''message'', JObj [(''content'', JStr ''Four'')])]]) \<and>
   py_get_default answer_usage_string ''usage'' (JObj []) = Inr (JStr ''n/a'') \<and>
   try_statement (HttpResponse 200 [] answer_usage_string) = Escaped AttributeError \<and>
   call_llm_with_fallback (run_malformed answer_usage_string) = (Inl AttributeError, [Post 0]) \<and>
   try_statement (HttpResponse 200 [] answer_four) = Returned (JStr ''Four'')"
  by (simp add: run_malformed_def answer_usage_string_def answer_four_def run_simps)

text \<open>
  Claim C4. In a run of the retry loop in which all \<open>N\<close> attempts fail, the effects are
  the request of attempt \<open>i\<close> followed by a sleep of \<open>2 ** (i + 1)\<close> seconds, for
  \<open>i = 0, ..., N - 2\<close>, then the request of attempt \<open>N - 1\<close> and nothing after it: the
  delays are 2, 4, 8, ..., one before each further attempt and none after the last. The
  base of the power is the literal 2 of the source.
\<close>

theorem C4_backoff_schedule:
  assumes "0 < VSCODE_MAX_RETRIES w"
    and "\<forall>k<VSCODE_MAX_RETRIES w. is_Recorded (try_statement (primary w k))"
  shows "snd (call_vscode_llm w) =
           concat (map (\<lambda>i. [Post i, Sleep (2 ^ (i + 1))]) [0..<VSCODE_MAX_RETRIES w - 1])
             @ [Post (VSCODE_MAX_RETRIES w - 1)] \<and>
         sleeps (snd (call_vscode_llm w)) =
           map (\<lambda>i. 2 ^ (i + 1)) [0..<VSCODE_MAX_RETRIES w - 1] \<and>
         last (snd (call_vscode_llm w)) = Post (VSCODE_MAX_RETRIES w - 1)"
proof -
  have run: "snd (call_vscode_llm w) =
      concat (map (\<lambda>i. [Post i, Sleep (2 ^ (i + 1))]) [0..<VSCODE_MAX_RETRIES w - 1])
        @ [Post (VSCODE_MAX_RETRIES w - 1)]"
    using call_vscode_llm_all_recorded[OF assms] by simp
  show ?thesis
    unfolding run by (simp add: sleeps_append sleeps_alternating)
qed

theorem C4_witness:
  "snd (call_vscode_llm run_503) = [Post 0, Sleep 2, Post 1, Sleep 4, Post 2] \<and>
   sleeps (snd (call_vscode_llm run_503)) = [2, 4] \<and>
   last (snd (call_vscode_llm run_503)) = Post 2"
proof -
  have h1: "0 < VSCODE_MAX_RETRIES run_503" by (simp add: run_503_def)
  have h2: "\<forall>k<VSCODE_MAX_RETRIES run_503. is_Recorded (try_statement (primary run_503 k))"
    by (simp add: run_503_def try_statement_def try_body_def)
  have N: "VSCODE_MAX_RETRIES run_503 - 1 = 2" by (simp add: run_503_def)
  have u: "[0..<2] = [0, 1::nat]" by (simp add: upt_rec)
  from C4_backoff_schedule[OF h1 h2]
  show ?thesis unfolding N u by (elim conjE, intro conjI) simp_all
qed

lemma events_shape:
  assumes "0 < VSCODE_MAX_RETRIES w"
  shows "\<exists>k<VSCODE_MAX_RETRIES w. snd (call_vscode_llm w) =
     concat (map (\<lambda>i. [Post i, Sleep (2 ^ (i + 1))]) [0..<k]) @ [Post k]"
proof (cases w rule: call_vscode_llm_cases)
  case all_fail
  then show ?thesis
    using call_vscode_llm_all_recorded[OF assms all_fail] assms
    by (intro exI[of _ "VSCODE_MAX_RETRIES w - 1"]) simp
next
  case (returns k v)
  then show ?thesis using call_vscode_llm_Returned[OF returns] by auto
next
  case (escapes k e)
  then show ?thesis using call_vscode_llm_Escaped[OF escapes] by auto
qed

text \<open>
  Claim C5. A response whose status is not 200 is classified by its body: when the
  lower-cased body contains \<open>filtered\<close>, the attempt fails with \<open>ContentFilteredError\<close>
  (kind \<open>ContentFiltered\<close>, not \<open>ProtocolError\<close>); otherwise it fails with the base
  class \<open>VSCodeLLMError\<close> (kind \<open>ProtocolError\<close>), whose message carries the status
  and the body.
\<close>

theorem C5_non_200_classification:
  assumes "status \<noteq> 200"
  shows "((\<exists>pre suf. lower body = pre @ ''filtered'' @ suf) \<longrightarrow>
            try_statement (HttpResponse status body data) =
              Recorded (ContentFilteredError (''Content filtered: '' @ body)) \<and>
            taxonomy_kind (recorded (try_statement (HttpResponse status body data))) =
              Some ContentFiltered) \<and>
         (\<not> (\<exists>pre suf. lower body = pre @ ''filtered'' @ suf) \<longrightarrow>
            try_statement (HttpResponse status body data) =
              Recorded (VSCodeLLMError (''API error ('' @ str_int status @ ''): '' @ body)) \<and>
            taxonomy_kind (recorded (try_statement (HttpResponse status body data))) =
              Some ProtocolError)"
proof (cases "str_contains ''filtered'' (lower body)")
  case True
  then have ex: "\<exists>pre suf. lower body = pre @ ''filtered'' @ suf"
    using str_contains_iff[of "''filtered''" "lower body"] by blast
  have "try_statement (HttpResponse status body data) =
      Recorded (ContentFilteredError (''Content filtered: '' @ body))"
    using assms True by (simp add: try_statement_def try_body_def)
  with ex show ?thesis by simp
next
  case False
  then have nex: "\<not> (\<exists>pre suf. lower body = pre @ ''filtered'' @ suf)"
    using str_contains_iff[of "''filtered''" "lower body"] by blast
  have "try_statement (HttpResponse status body data) =
      Recorded (VSCodeLLMError (''API error ('' @ str_int status @ ''): '' @ body))"
    using assms False by (simp add: try_statement_def try_body_def)
  with nex show ?thesis by simp
qed

theorem C5_witness:
  "try_statement (HttpResponse 400 ''Response was FILTERED by policy'' JNull) =
     Recorded (ContentFilteredError ''Content filtered: Response was FILTERED by policy'') \<and>
   try_statement (HttpResponse 503 ''service unavailable'' JNull) =
     Recorded (VSCodeLLMError ''API error (503): service unavailable'')"
proof -
  have h: "(400::int) \<noteq> 200" "(503::int) \<noteq> 200" by simp_all
  have f: "str_contains ''filtered'' (lower ''Response was FILTERED by policy'')"
    by (simp add: lower_def lower_char_def)
  have g: "\<not> str_contains ''filtered'' (lower ''service unavailable'')"
    by (simp add: lower_def lower_char_def)
  have s: "str_int 503 = ''503''"
    by (simp add: str_int_def str_nat.simps digit_char_def)
  from C5_non_200_classification[OF h(1), of "''Response was FILTERED by policy''" JNull]
    C5_non_200_classification[OF h(2), of "''service unavailable''" JNull]
  show ?thesis
    using f[unfolded str_contains_iff] g[unfolded str_contains_iff] s by simp
qed

lemma recorded_is_llm_error:
  "is_Recorded (try_statement r) \<Longrightarrow> is_VSCodeLLMError (recorded (try_statement r))"
  by (cases "try_statement r") (auto dest: try_statement_Recorded)

lemma no_create_call_vscode_llm: "AnthropicCreate \<notin> set (snd (call_vscode_llm w))"
  unfolding call_vscode_llm_def by (rule no_create_retry_loop)

text \<open>
  Claim C6. When all \<open>N\<close> attempts against the primary have failed, the fallback is
  enabled and \<open>ANTHROPIC_API_KEY\<close> is set, the pipeline sends one request to the
  secondary backend, after the \<open>N\<close> requests to the primary and as its last effect. When
  that request returns, the pipeline returns its text (the result comes from the
  fallback); when it raises, the pipeline raises that very exception: the secondary is
  not retried and nothing else is tried.
\<close>

theorem C6_one_fallback_request:
  assumes "0 < VSCODE_MAX_RETRIES w"
    and "\<forall>k<VSCODE_MAX_RETRIES w. is_Recorded (try_statement (primary w k))"
    and "VSCODE_LLM_FALLBACK_ENABLED w"
    and "env_truthy (ANTHROPIC_API_KEY w)"
  shows "snd (call_llm_with_fallback w) = snd (call_vscode_llm w) @ [AnthropicCreate] \<and>
         count_list (snd (call_llm_with_fallback w)) AnthropicCreate = 1 \<and>
         posts (snd (call_llm_with_fallback w)) = [0..<VSCODE_MAX_RETRIES w] \<and>
         (\<forall>bs. secondary w = CreateReturns bs \<longrightarrow>
            fst (call_llm_with_fallback w) = Inr (JStr (block_texts bs))) \<and>
         (\<forall>e. secondary w = CreateRaises e \<longrightarrow> fst (call_llm_with_fallback w) = Inl e)"
proof -
  let ?N = "VSCODE_MAX_RETRIES w"
  let ?e = "recorded (try_statement (primary w (?N - 1)))"
  have run: "call_vscode_llm w =
     (Inl ?e, concat (map (\<lambda>i. [Post i, Sleep (2 ^ (i + 1))]) [0..<?N - 1]) @ [Post (?N - 1)])"
    by (rule call_vscode_llm_all_recorded[OF assms(1,2)])
  have "is_Recorded (try_statement (primary w (?N - 1)))" using assms(1,2) by simp
  then have llm: "is_VSCodeLLMError ?e" by (rule recorded_is_llm_error)
  have fst: "fst (call_vscode_llm w) = Inl ?e" by (simp add: run)
  have pipe: "call_llm_with_fallback w =
     ((case secondary w of CreateRaises e' \<Rightarrow> Inl e' | CreateReturns bs \<Rightarrow> Inr (JStr (block_texts bs))),
      snd (call_vscode_llm w) @ [AnthropicCreate])"
    by (rule pipeline_fallback[OF fst llm assms(3,4)])
  obtain M where M: "?N = Suc M" using assms(1) by (cases ?N) auto
  have p: "posts (snd (call_vscode_llm w)) = [0..<?N]"
    by (simp add: run posts_append posts_alternating M)
  have c: "count_list (snd (call_vscode_llm w)) AnthropicCreate = 0"
    using no_create_call_vscode_llm by (simp add: count_list_0_iff)
  show ?thesis
    unfolding pipe using p c by (simp add: posts_append split: sdk_outcome.splits)
qed

theorem C6_witness:
  "snd (call_llm_with_fallback run_503) = snd (call_vscode_llm run_503) @ [AnthropicCreate] \<and>
   count_list (snd (call_llm_with_fallback run_503)) AnthropicCreate = 1 \<and>
   posts (snd (call_llm_with_fallback run_503)) = [0, 1, 2] \<and>
   fst (call_llm_with_fallback run_503) = Inr (JStr ''Four.'') \<and>
   fst (call_llm_with_fallback run_fallback_fails) =
     Inl (AnthropicError ''Error code: 529 - overloaded_error'')"
proof -
  have a1: "0 < VSCODE_MAX_RETRIES run_503" by (simp add: run_503_def)
  have a2: "\<forall>k<VSCODE_MAX_RETRIES run_503. is_Recorded (try_statement (primary run_503 k))"
    by (simp add: run_503_def try_statement_def try_body_def)
  have a3: "VSCODE_LLM_FALLBACK_ENABLED run_503"
    by (simp add: run_503_def VSCODE_LLM_FALLBACK_ENABLED_def lower_def lower_char_def)
  have a4: "env_truthy (ANTHROPIC_API_KEY run_503)" by (simp add: run_503_def)
  have b1: "0 < VSCODE_MAX_RETRIES run_fallback_fails" by (simp add: run_fallback_fails_def)
  have b2: "\<forall>k<VSCODE_MAX_RETRIES run_fallback_fails.
      is_Recorded (try_statement (primary run_fallback_fails k))"
    by (simp add: run_fallback_fails_def try_statement_def try_body_def)
  have b3: "VSCODE_LLM_FALLBACK_ENABLED run_fallback_fails"
    by (simp add: run_fallback_fails_def VSCODE_LLM_FALLBACK_ENABLED_def lower_def lower_char_def)
  have b4: "env_truthy (ANTHROPIC_API_KEY run_fallback_fails)"
    by (simp add: run_fallback_fails_def)
  have N: "VSCODE_MAX_RETRIES run_503 = 3" by (simp add: run_503_def)
  have u: "[0..<3] = [0, 1, 2::nat]" by (simp add: upt_rec)
  have s1: "secondary run_503 = CreateReturns [TextBlock ''Four'', NonTextBlock, TextBlock ''.'']"
    by (simp add: run_503_def)
  have s2: "secondary run_fallback_fails =
      CreateRaises (AnthropicError ''Error code: 529 - overloaded_error'')"
    by (simp add: run_fallback_fails_def)
  from C6_one_fallback_request[OF a1 a2 a3 a4] C6_one_fallback_request[OF b1 b2 b3 b4]
  show ?thesis unfolding N u using s1 s2 by (elim conjE, intro conjI) simp_all
qed

text \<open>
  Claim C7. When all \<open>N\<close> attempts against the primary have failed and the fallback is
  disabled, or \<open>ANTHROPIC_API_KEY\<close> is not set, the pipeline sends no request to the
  secondary backend and raises the error recorded for the last primary attempt (of the
  two policies the specification allows, the code takes this one: it re-raises the
  primary error and has no \<open>FallbackUnavailable\<close> error).
\<close>

theorem C7_no_fallback_surfaces_last_primary_error:
  assumes "0 < VSCODE_MAX_RETRIES w"
    and "\<forall>k<VSCODE_MAX_RETRIES w. is_Recorded (try_statement (primary w k))"
    and "\<not> VSCODE_LLM_FALLBACK_ENABLED w \<or> \<not> env_truthy (ANTHROPIC_API_KEY w)"
  shows "try_statement (primary w (VSCODE_MAX_RETRIES w - 1)) =
           Recorded (recorded (try_statement (primary w (VSCODE_MAX_RETRIES w - 1)))) \<and>
         fst (call_llm_with_fallback w) =
           Inl (recorded (try_statement (primary w (VSCODE_MAX_RETRIES w - 1)))) \<and>
         snd (call_llm_with_fallback w) = snd (call_vscode_llm w) \<and>
         AnthropicCreate \<notin> set (snd (call_llm_with_fallback w))"
proof -
  let ?N = "VSCODE_MAX_RETRIES w"
  let ?e = "recorded (try_statement (primary w (?N - 1)))"
  have "is_Recorded (try_statement (primary w (?N - 1)))" using assms(1,2) by simp
  then have rec: "try_statement (primary w (?N - 1)) = Recorded ?e" by simp
  have fst: "fst (call_vscode_llm w) = Inl ?e"
    using call_vscode_llm_all_recorded[OF assms(1,2)] by simp
  have same: "call_llm_with_fallback w = call_vscode_llm w"
    by (rule pipeline_no_fallback[OF fst]) (use assms(3) in blast)
  show ?thesis
    using rec fst no_create_call_vscode_llm[of w] unfolding same by simp
qed

theorem C7_witness:
  "fst (call_llm_with_fallback run_refused) =
     Inl (VSCodeLLMConnectionError ''Connection error: Cannot connect to host 127.0.0.1:8080'') \<and>
   AnthropicCreate \<notin> set (snd (call_llm_with_fallback run_refused)) \<and>
   fst (call_llm_with_fallback run_empty) = Inl (EmptyResponseError ''Empty content in response'') \<and>
   AnthropicCreate \<notin> set (snd (call_llm_with_fallback run_empty))"
proof -
  have a1: "0 < VSCODE_MAX_RETRIES run_refused" by (simp add: run_refused_def)
  have a2: "\<forall>k<VSCODE_MAX_RETRIES run_refused. is_Recorded (try_statement (primary run_refused k))"
    by (simp add: run_refused_def try_statement_def try_body_def)
  have a3: "\<not> VSCODE_LLM_FALLBACK_ENABLED run_refused \<or> \<not> env_truthy (ANTHROPIC_API_KEY run_refused)"
    by (simp add: run_refused_def)
  have b1: "0 < VSCODE_MAX_RETRIES run_empty" by (simp add: run_empty_def)
  have b2: "\<forall>k<VSCODE_MAX_RETRIES run_empty. is_Recorded (try_statement (primary run_empty k))"
    by (simp add: run_empty_def empty_content_def try_statement_def try_body_def read_content_def)
  have b3: "\<not> VSCODE_LLM_FALLBACK_ENABLED run_empty \<or> \<not> env_truthy (ANTHROPIC_API_KEY run_empty)"
    by (simp add: run_empty_def VSCODE_LLM_FALLBACK_ENABLED_def lower_def lower_char_def)
  have ra: "try_statement (primary run_refused (VSCODE_MAX_RETRIES run_refused - 1)) =
     Recorded (VSCodeLLMConnectionError ''Connection error: Cannot connect to host 127.0.0.1:8080'')"
    by (simp add: run_refused_def try_statement_def try_body_def)
  have rb: "try_statement (primary run_empty (VSCODE_MAX_RETRIES run_empty - 1)) =
     Recorded (EmptyResponseError ''Empty content in response'')"
    by (simp add: run_empty_def empty_content_def try_statement_def try_body_def read_content_def)
  from C7_no_fallback_surfaces_last_primary_error[OF a1 a2 a3]
    C7_no_fallback_surfaces_last_primary_error[OF b1 b2 b3]
  show ?thesis unfolding ra rb by (elim conjE, intro conjI) simp_all
qed

text \<open>
  Claim C8. A 200 response whose body has no \<open>choices\<close> (the key is missing, or its
  value is empty or null), or whose first choice's message content is empty, makes the
  attempt fail with \<open>EmptyResponseError\<close>, which the retry loop records like any other
  failure. With \<open>VSCODE_MAX_RETRIES = 2\<close>, the body
  \<^verbatim>\<open>{"choices": [{"message": {"content": ""}}]}\<close> on both attempts and the fallback
  disabled, the pipeline raises \<open>EmptyResponseError\<close> after exactly two requests with
  one sleep of 2 seconds between them.
\<close>

theorem C8_empty_response_drives_retry:
  "(\<forall>kvs t. map_of kvs ''choices'' = None \<longrightarrow>
      try_statement (HttpResponse 200 t (JObj kvs)) =
        Recorded (EmptyResponseError ''No choices in response'')) \<and>
   (\<forall>kvs t c. map_of kvs ''choices'' = Some c \<and> \<not> truthy c \<longrightarrow>
      try_statement (HttpResponse 200 t (JObj kvs)) =
        Recorded (EmptyResponseError ''No choices in response'')) \<and>
   (\<forall>kvs t ckvs cs mkvs c.
      map_of kvs ''choices'' = Some (JArr (JObj ckvs # cs)) \<and>
      map_of ckvs ''message'' = Some (JObj mkvs) \<and>
      map_of mkvs ''content'' = Some c \<and> \<not> truthy c \<longrightarrow>
      try_statement (HttpResponse 200 t (JObj kvs)) =
        Recorded (EmptyResponseError ''Empty content in response'')) \<and>
   (\<forall>w t0 t1.
      VSCODE_MAX_RETRIES w = 2 \<and>
      primary w 0 = HttpResponse 200 t0 empty_content \<and>
      primary w 1 = HttpResponse 200 t1 empty_content \<and>
      \<not> VSCODE_LLM_FALLBACK_ENABLED w \<longrightarrow>
      call_llm_with_fallback w =
        (Inl (EmptyResponseError ''Empty content in response''), [Post 0, Sleep 2, Post 1]))"
proof (intro conjI allI impI)
  fix kvs :: "(string \<times> json) list" and t :: string
  assume "map_of kvs ''choices'' = None"
  then show "try_statement (HttpResponse 200 t (JObj kvs)) =
        Recorded (EmptyResponseError ''No choices in response'')"
    by (simp add: try_statement_def try_body_def read_content_def)
next
  fix kvs :: "(string \<times> json) list" and t :: string and c :: json
  assume "map_of kvs ''choices'' = Some c \<and> \<not> truthy c"
  then show "try_statement (HttpResponse 200 t (JObj kvs)) =
        Recorded (EmptyResponseError ''No choices in response'')"
    by (simp add: try_statement_def try_body_def read_content_def)
next
  fix kvs ckvs mkvs :: "(string \<times> json) list" and t :: string and cs :: "json list"
    and c :: json
  assume a: "map_of kvs ''choices'' = Some (JArr (JObj ckvs # cs)) \<and>
      map_of ckvs ''message'' = Some (JObj mkvs) \<and>
      map_of mkvs ''content'' = Some c \<and> \<not> truthy c"
  then have "read_content (JObj kvs) = Inl (EmptyResponseError ''Empty content in response'')"
    using read_content_empty[of kvs ckvs cs mkvs c] by simp
  then show "try_statement (HttpResponse 200 t (JObj kvs)) =
        Recorded (EmptyResponseError ''Empty content in response'')"
    by (simp add: try_statement_def try_body_def)
next
  fix w :: world and t0 t1 :: string
  assume a: "VSCODE_MAX_RETRIES w = 2 \<and>
      primary w 0 = HttpResponse 200 t0 empty_content \<and>
      primary w 1 = HttpResponse 200 t1 empty_content \<and>
      \<not> VSCODE_LLM_FALLBACK_ENABLED w"
  have e: "\<And>x. try_statement (HttpResponse 200 x empty_content) =
      Recorded (EmptyResponseError ''Empty content in response'')"
    by (simp add: try_statement_def try_body_def read_content_def empty_content_def)
  have N: "0 < VSCODE_MAX_RETRIES w" using a by simp
  have rec: "\<forall>k<VSCODE_MAX_RETRIES w. is_Recorded (try_statement (primary w k))"
  proof (intro allI impI)
    fix k assume "k < VSCODE_MAX_RETRIES w"
    then have "k = 0 \<or> k = 1" using a by auto
    then show "is_Recorded (try_statement (primary w k))" using a e by auto
  qed
  have u: "[0..<Suc 0] = [0::nat]" by simp
  have run: "call_vscode_llm w =
      (Inl (EmptyResponseError ''Empty content in response''), [Post 0, Sleep 2, Post 1])"
    using call_vscode_llm_all_recorded[OF N rec] a e by (simp add: u)
  then have fst: "fst (call_vscode_llm w) = Inl (EmptyResponseError ''Empty content in response'')"
    by simp
  have "call_llm_with_fallback w = call_vscode_llm w"
    by (rule pipeline_no_fallback[OF fst]) (use a in simp)
  with run show "call_llm_with_fallback w =
        (Inl (EmptyResponseError ''Empty content in response''), [Post 0, Sleep 2, Post 1])"
    by simp
qed

theorem C8_witness:
  "try_statement (HttpResponse 200 [] (JObj [(''usage'', JNull)])) =
     Recorded (EmptyResponseError ''No choices in response'') \<and>
   try_statement (HttpResponse 200 [] (JObj [(''choices'', JArr [])])) =
     Recorded (EmptyResponseError ''No choices in response'') \<and>
   try_statement (HttpResponse 200 [] empty_content) =
     Recorded (EmptyResponseError ''Empty content in response'') \<and>
   call_llm_with_fallback run_empty =
     (Inl (EmptyResponseError ''Empty content in response''), [Post 0, Sleep 2, Post 1])"
proof -
  note c8 = C8_empty_response_drives_retry
  have p1: "try_statement (HttpResponse 200 [] (JObj [(''usage'', JNull)])) =
     Recorded (EmptyResponseError ''No choices in response'')"
    using c8[THEN conjunct1, rule_format, of "[(''usage'', JNull)]" "[]"] by simp
  have p2: "try_statement (HttpResponse 200 [] (JObj [(''choices'', JArr [])])) =
     Recorded (EmptyResponseError ''No choices in response'')"
    using c8[THEN conjunct2, THEN conjunct1, rule_format,
        of "[(''choices'', JArr [])]" "JArr []" "[]"] by simp
  have p3: "try_statement (HttpResponse 200 [] empty_content) =
     Recorded (EmptyResponseError ''Empty content in response'')"
    using c8[THEN conjunct2, THEN conjunct2, THEN conjunct1, rule_format,
        of "[(''choices'', JArr [JObj [(''message'', JObj [(''content'', JStr [])])]])]"
           "[(''message'', JObj [(''content'', JStr [])])]" "[]"
           "[(''content'', JStr [])]" "JStr []" "[]"]
    by (simp add: empty_content_def)
  have h: "VSCODE_MAX_RETRIES run_empty = 2 \<and>
      primary run_empty 0 = HttpResponse 200 [] empty_content \<and>
      primary run_empty 1 = HttpResponse 200 [] empty_content \<and>
      \<not> VSCODE_LLM_FALLBACK_ENABLED run_empty"
    by (simp add: run_empty_def VSCODE_LLM_FALLBACK_ENABLED_def lower_def lower_char_def)
  have p4: "call_llm_with_fallback run_empty =
     (Inl (EmptyResponseError ''Empty content in response''), [Post 0, Sleep 2, Post 1])"
    using c8[THEN conjunct2, THEN conjunct2, THEN conjunct2, rule_format, OF h] .
  from p1 p2 p3 p4 show ?thesis by blast
qed

text \<open>
  Claim C10. There are well-formed 200 responses for which reading the content raises a
  lookup error that no \<^verbatim>\<open>except\<close> clause of the retry loop catches. With three attempts
  allowed, the fallback enabled and its key set, a body whose first choice has no
  \<open>message\<close> key, and likewise a body whose message has no \<open>content\<close> key, makes
  the pipeline raise \<open>KeyError\<close> after the first request: the two remaining attempts
  are not made, the secondary backend is not called, and the failure is not an
  \<open>EmptyResponseError\<close>.
\<close>

theorem C10_lookup_error_escapes:
  "VSCODE_MAX_RETRIES (run_malformed no_message) = 3 \<and>
   VSCODE_LLM_FALLBACK_ENABLED (run_malformed no_message) \<and>
   env_truthy (ANTHROPIC_API_KEY (run_malformed no_message)) \<and>
   try_statement (HttpResponse 200 [] no_message) = Escaped (KeyError ''message'') \<and>
   call_llm_with_fallback (run_malformed no_message) = (Inl (KeyError ''message''), [Post 0]) \<and>
   try_statement (HttpResponse 200 [] no_content) = Escaped (KeyError ''content'') \<and>
   call_llm_with_fallback (run_malformed no_content) = (Inl (KeyError ''content''), [Post 0])"
  by (simp add: run_malformed_def no_message_def no_content_def run_simps)

lemma llm_error_kind:
  "is_VSCodeLLMError e \<Longrightarrow>
   taxonomy_kind e \<in> {Some ConnectionError, Some ContentFiltered, Some EmptyResponse, Some ProtocolError}"
  by (cases e) auto

text \<open>
  Claim C9 as stated fails: when the primary is exhausted and the request to the
  secondary backend raises, the pipeline surfaces the SDK's exception as it is, and that
  exception has none of the five kinds.
\<close>

theorem C9_counterexample:
  "fst (call_llm_with_fallback run_fallback_fails) =
     Inl (AnthropicError ''Error code: 529 - overloaded_error'') \<and>
   taxonomy_kind (AnthropicError ''Error code: 529 - overloaded_error'') = None"
  by (simp add: run_fallback_fails_def run_simps)

text \<open>
  Claim C9, amended. A pipeline invocation that does not return a result raises one
  exception. When no attempt that is made ends with an exception the retry loop does not
  catch, this exception is either the error recorded for the last primary attempt, of
  kind \<open>ConnectionError\<close>, \<open>ContentFiltered\<close>, \<open>EmptyResponse\<close> or \<open>ProtocolError\<close>
  (when the fallback is disabled or has no key, and then the secondary is not called),
  or the exception that the single request to the secondary backend raised, surfaced
  as it is. No exception of kind \<open>FallbackUnavailable\<close> is ever raised.
\<close>

theorem C9_terminal_error_kinds:
  assumes "0 < VSCODE_MAX_RETRIES w"
    and "\<not> (\<exists>k<VSCODE_MAX_RETRIES w. (\<forall>j<k. is_Recorded (try_statement (primary w j))) \<and>
             is_Escaped (try_statement (primary w k)))"
    and "fst (call_llm_with_fallback w) = Inl e"
  shows "taxonomy_kind e \<noteq> Some FallbackUnavailable \<and>
         ((\<not> (VSCODE_LLM_FALLBACK_ENABLED w \<and> env_truthy (ANTHROPIC_API_KEY w)) \<and>
           try_statement (primary w (VSCODE_MAX_RETRIES w - 1)) = Recorded e \<and>
           taxonomy_kind e \<in>
             {Some ConnectionError, Some ContentFiltered, Some EmptyResponse, Some ProtocolError} \<and>
           AnthropicCreate \<notin> set (snd (call_llm_with_fallback w))) \<or>
          (VSCODE_LLM_FALLBACK_ENABLED w \<and> env_truthy (ANTHROPIC_API_KEY w) \<and>
           secondary w = CreateRaises e))"
proof -
  let ?N = "VSCODE_MAX_RETRIES w"
  have k: "taxonomy_kind e \<noteq> Some FallbackUnavailable" by (cases e) auto
  show ?thesis
  proof (cases w rule: call_vscode_llm_cases)
    case all_fail
    let ?e = "recorded (try_statement (primary w (?N - 1)))"
    have isrec: "is_Recorded (try_statement (primary w (?N - 1)))"
      using assms(1) all_fail by simp
    then have rec: "try_statement (primary w (?N - 1)) = Recorded ?e" by simp
    have llm: "is_VSCodeLLMError ?e" using isrec by (rule recorded_is_llm_error)
    have fst: "fst (call_vscode_llm w) = Inl ?e"
      using call_vscode_llm_all_recorded[OF assms(1) all_fail] by simp
    show ?thesis
    proof (cases "VSCODE_LLM_FALLBACK_ENABLED w \<and> env_truthy (ANTHROPIC_API_KEY w)")
      case True
      then have "fst (call_llm_with_fallback w) =
          (case secondary w of CreateRaises e' \<Rightarrow> Inl e' | CreateReturns bs \<Rightarrow> Inr (JStr (block_texts bs)))"
        using pipeline_fallback[OF fst llm] by simp
      with assms(3) have "secondary w = CreateRaises e"
        by (cases "secondary w") auto
      with True k show ?thesis by simp
    next
      case False
      then have same: "call_llm_with_fallback w = call_vscode_llm w"
        using pipeline_no_fallback[OF fst] by blast
      with assms(3) fst have e: "e = ?e" by simp
      have "AnthropicCreate \<notin> set (snd (call_llm_with_fallback w))"
        unfolding same by (rule no_create_call_vscode_llm)
      with False k e rec llm_error_kind[OF llm] show ?thesis by simp
    qed
  next
    case (returns k v)
    have "fst (call_vscode_llm w) = Inr v"
      using call_vscode_llm_Returned[OF returns] by simp
    then have "fst (call_llm_with_fallback w) = Inr v"
      using pipeline_primary_returns by simp
    with assms(3) show ?thesis by simp
  next
    case (escapes k e')
    then have "is_Escaped (try_statement (primary w k))" by simp
    with escapes(1,2) assms(2) show ?thesis by blast
  qed
qed

theorem C9_witness:
  "taxonomy_kind (VSCodeLLMConnectionError
       ''Connection error: Cannot connect to host 127.0.0.1:8080'') = Some ConnectionError \<and>
   fst (call_llm_with_fallback run_refused) =
     Inl (VSCodeLLMConnectionError ''Connection error: Cannot connect to host 127.0.0.1:8080'') \<and>
   AnthropicCreate \<notin> set (snd (call_llm_with_fallback run_refused)) \<and>
   secondary run_fallback_fails =
     CreateRaises (AnthropicError ''Error code: 529 - overloaded_error'')"
proof -
  let ?e = "VSCodeLLMConnectionError ''Connection error: Cannot connect to host 127.0.0.1:8080''"
  let ?a = "AnthropicError ''Error code: 529 - overloaded_error''"
  have a1: "0 < VSCODE_MAX_RETRIES run_refused" by (simp add: run_refused_def)
  have a2: "\<not> (\<exists>k<VSCODE_MAX_RETRIES run_refused.
       (\<forall>j<k. is_Recorded (try_statement (primary run_refused j))) \<and>
       is_Escaped (try_statement (primary run_refused k)))"
    by (simp add: run_refused_def try_statement_def try_body_def)
  have a3: "fst (call_llm_with_fallback run_refused) = Inl ?e"
    by (simp add: run_refused_def run_simps)
  have a4: "\<not> (VSCODE_LLM_FALLBACK_ENABLED run_refused \<and> env_truthy (ANTHROPIC_API_KEY run_refused))"
    by (simp add: run_refused_def)
  have b1: "0 < VSCODE_MAX_RETRIES run_fallback_fails" by (simp add: run_fallback_fails_def)
  have b2: "\<not> (\<exists>k<VSCODE_MAX_RETRIES run_fallback_fails.
       (\<forall>j<k. is_Recorded (try_statement (primary run_fallback_fails j))) \<and>
       is_Escaped (try_statement (primary run_fallback_fails k)))"
    by (simp add: run_fallback_fails_def try_statement_def try_body_def)
  have b3: "fst (call_llm_with_fallback run_fallback_fails) = Inl ?a"
    by (simp add: run_fallback_fails_def run_simps)
  have b4: "VSCODE_LLM_FALLBACK_ENABLED run_fallback_fails \<and>
      env_truthy (ANTHROPIC_API_KEY run_fallback_fails)"
    by (simp add: run_fallback_fails_def VSCODE_LLM_FALLBACK_ENABLED_def lower_def lower_char_def)
  from C9_terminal_error_kinds[OF a1 a2 a3] a4
  have r1: "AnthropicCreate \<notin> set (snd (call_llm_with_fallback run_refused))" by blast
  from C9_terminal_error_kinds[OF b1 b2 b3] b4
  have r2: "secondary run_fallback_fails = CreateRaises ?a" by blast
  from r1 r2 a3 show ?thesis by simp
qed








end
